theory Spec2Isabelle
  imports Main
begin

section \<open>Data model\<close>

text \<open>
  The webhook handler of \<^verbatim>\<open>cmd/jiralert/main.go\<close> works on four kinds of data: the
  decoded alert batch (\<^verbatim>\<open>alertmanager.Data\<close>), the receiver configuration
  (\<^verbatim>\<open>config.Config\<close>), the HTTP response writer and the process-wide request counter.
  The packages \<^verbatim>\<open>pkg/alertmanager\<close>, \<^verbatim>\<open>pkg/config\<close> and \<^verbatim>\<open>pkg/notify\<close> are not part
  of the sources at hand; their types carry the fields the handler reads.
\<close>

type_synonym KV = "string \<rightharpoonup> string"

text \<open>A Go \<^verbatim>\<open>error\<close> value; the handler only ever reads its text (\<^verbatim>\<open>err.Error()\<close>).\<close>

datatype error = Err (ErrorText: string)

text \<open>
  Modelled from the spec: the types \<^verbatim>\<open>alertmanager.Alert\<close> and \<^verbatim>\<open>alertmanager.Data\<close>
  (section 3: a status, labels, annotations and timing fields; a receiver name, group
  labels and an ordered sequence of alerts).
\<close>

record Alert =
  alert_status :: string
  Labels :: KV
  Annotations :: KV
  StartsAt :: string
  EndsAt :: string

record Data =
  Receiver :: string
  GroupLabels :: KV
  Alerts :: "Alert list"

text \<open>The value of \<^verbatim>\<open>alertmanager.Data{}\<close>: empty strings, nil maps, nil slice.\<close>

definition zero_Data :: Data where
  "zero_Data = \<lparr>Receiver = [], GroupLabels = Map.empty, Alerts = []\<rparr>"

text \<open>
  Modelled from the spec: \<^verbatim>\<open>config.ReceiverConfig\<close> and \<^verbatim>\<open>config.Config\<close> (section 3: a
  unique name plus notification-target parameters that are opaque to the dispatcher).
\<close>

record ReceiverConfig =
  Name :: string
  Params :: KV

record Config =
  Receivers :: "ReceiverConfig list"
  Template :: string

text \<open>The anonymous response struct of \<^verbatim>\<open>errorHandler\<close>.\<close>

record response =
  Error :: bool
  Status :: int
  Message :: string

text \<open>
  What has been written to an \<^verbatim>\<open>http.ResponseWriter\<close>: the header map, the status code
  passed to the first \<^verbatim>\<open>WriteHeader\<close> (\<open>None\<close> while no header has been written) and
  the chunks of the body in order. A chunk is either the \<^verbatim>\<open>json.Marshal\<close> encoding of a
  response struct or plain text.
\<close>

datatype chunk = JSON response | Text string

record ResponseWriter =
  Header :: KV
  wroteHeader :: "int option"
  written :: "chunk list"

definition fresh_w :: ResponseWriter where
  "fresh_w = \<lparr>Header = Map.empty, wroteHeader = None, written = []\<rparr>"

text \<open>Records handed to the go-kit logger: a level and the key/value pairs of the call.\<close>

datatype level = LevelDebug | LevelInfo | LevelWarn | LevelError

datatype logval = LogStr string | LogInt int | LogErr error | LogKV KV

type_synonym log_entry = "level \<times> (string \<times> logval) list"

text \<open>Calls that reach the notifier gateway of \<^verbatim>\<open>pkg/notify\<close>, in order.\<close>

datatype 'r gateway_call = NewReceiverCall ReceiverConfig | NotifyCall 'r Data

text \<open>
  The state a request can change: the counter vector \<^verbatim>\<open>requestTotal\<close> (labels receiver
  and status code), the records handed to the logger and the calls made to the gateway.
\<close>

record 'r state =
  requestTotal :: "string \<times> string \<Rightarrow> nat"
  logger :: "log_entry list"
  gateway :: "'r gateway_call list"

text \<open>
  The collaborators the handler closes over. \<open>json_Decode\<close> is
  \<^verbatim>\<open>json.NewDecoder(req.Body).Decode(&data)\<close> started on \<^verbatim>\<open>alertmanager.Data{}\<close>: it
  returns what the struct holds after the call together with the error, so a decoder
  that fails after filling some fields is representable. \<open>notify_NewReceiver\<close> is
  \<^verbatim>\<open>notify.NewReceiver(conf, tmpl)\<close> and \<open>Notify\<close> is \<^verbatim>\<open>r.Notify(&data, logger)\<close>, which
  returns the retry flag and the error; \<open>Notify\<close> is taken not to change the batch.
\<close>

record 'r collaborators =
  json_Decode :: "string \<Rightarrow> Data \<times> error option"
  config :: Config
  notify_NewReceiver :: "ReceiverConfig \<Rightarrow> error + 'r"
  Notify :: "'r \<Rightarrow> Data \<Rightarrow> bool \<times> error option"

section \<open>Constants and library functions\<close>

definition unknownReceiver :: string where
  "unknownReceiver = ''<unknown>''"

definition StatusOK :: int where
  "StatusOK = 200"

definition StatusBadRequest :: int where
  "StatusBadRequest = 400"

definition StatusNotFound :: int where
  "StatusNotFound = 404"

definition StatusInternalServerError :: int where
  "StatusInternalServerError = 500"

definition StatusServiceUnavailable :: int where
  "StatusServiceUnavailable = 503"

text \<open>
  \<^verbatim>\<open>http.StatusText\<close> on the status codes this program uses; the library returns the
  empty string for a code it does not know.
\<close>

definition StatusText :: "int \<Rightarrow> string" where
  "StatusText code =
     (if code = 200 then ''OK''
      else if code = 400 then ''Bad Request''
      else if code = 404 then ''Not Found''
      else if code = 500 then ''Internal Server Error''
      else if code = 503 then ''Service Unavailable''
      else [])"

text \<open>\<^verbatim>\<open>strconv.FormatInt(i, 10)\<close>: the decimal digits, with a minus sign below zero.\<close>

fun formatBits :: "nat \<Rightarrow> string" where
  "formatBits u =
     (if u < 10 then [''0123456789'' ! u]
      else formatBits (u div 10) @ [''0123456789'' ! (u mod 10)])"

declare formatBits.simps [simp del]

definition FormatInt :: "int \<Rightarrow> string" where
  "FormatInt i = (if i < 0 then CHR ''-'' # formatBits (nat (- i)) else formatBits (nat i))"

text \<open>
  \<^verbatim>\<open>w.WriteHeader(code)\<close>: the first call fixes the status code, a later one is ignored.
  Writing to the body before any \<^verbatim>\<open>WriteHeader\<close> sends the header with status 200.
\<close>

definition WriteHeader :: "ResponseWriter \<Rightarrow> int \<Rightarrow> ResponseWriter" where
  "WriteHeader w code =
     (case wroteHeader w of None \<Rightarrow> w\<lparr>wroteHeader := Some code\<rparr> | Some _ \<Rightarrow> w)"

definition Write :: "ResponseWriter \<Rightarrow> chunk \<Rightarrow> ResponseWriter" where
  "Write w out = (let w1 = WriteHeader w StatusOK in w1\<lparr>written := written w1 @ [out]\<rparr>)"

text \<open>
  The status code the client receives: the one written, or 200 when the handler returns
  without writing a header.
\<close>

definition http_status :: "ResponseWriter \<Rightarrow> int" where
  "http_status w = (case wroteHeader w of None \<Rightarrow> StatusOK | Some code \<Rightarrow> code)"

text \<open>
  \<^verbatim>\<open>http.Error(w, msg, code)\<close> of net/http: it sets the content type headers, writes the
  status code and prints the message with \<^verbatim>\<open>fmt.Fprintln\<close>, that is, followed by a
  newline.
\<close>

definition http_Error :: "ResponseWriter \<Rightarrow> string \<Rightarrow> int \<Rightarrow> ResponseWriter" where
  "http_Error w msg code =
     (let w1 = w\<lparr>Header := (Header w)(''Content-Type'' \<mapsto> ''text/plain; charset=utf-8'',
                                        ''X-Content-Type-Options'' \<mapsto> ''nosniff'')\<rparr>;
          w2 = WriteHeader w1 code
      in Write w2 (Text (msg @ [CHR 0x0A])))"

text \<open>\<^verbatim>\<open>level.X(logger).Log(keyvals...)\<close> hands one record to the logger.\<close>

definition Log :: "'r state \<Rightarrow> level \<Rightarrow> (string \<times> logval) list \<Rightarrow> 'r state" where
  "Log st lvl keyvals = st\<lparr>logger := logger st @ [(lvl, keyvals)]\<rparr>"

text \<open>\<^verbatim>\<open>requestTotal.WithLabelValues(receiver, code).Inc()\<close>.\<close>

definition Inc :: "(string \<times> string \<Rightarrow> nat) \<Rightarrow> string \<times> string \<Rightarrow> (string \<times> string \<Rightarrow> nat)" where
  "Inc m k = m(k := m k + 1)"

text \<open>
  Modelled from the spec: \<^verbatim>\<open>Config.ReceiverByName\<close> of \<^verbatim>\<open>pkg/config\<close> (section 4.2:
  lookup by exact name match against the configured receivers, no pattern matching, no
  default receiver; nil when there is none).
\<close>

definition ReceiverByName :: "Config \<Rightarrow> string \<Rightarrow> ReceiverConfig option" where
  "ReceiverByName c name = find (\<lambda>rc. Name rc = name) (Receivers c)"

text \<open>
  Modelled from the spec: \<^verbatim>\<open>Alerts.Firing\<close> of \<^verbatim>\<open>pkg/alertmanager\<close> (section 4.3: only
  the alerts whose status is "firing", in their order).
\<close>

definition Firing :: "Alert list \<Rightarrow> Alert list" where
  "Firing as = filter (\<lambda>a. alert_status a = ''firing'') as"

section \<open>The handlers\<close>

text \<open>\<^verbatim>\<open>errorHandler\<close> (main.go, lines 126 to 145).\<close>

definition errorHandler ::
  "ResponseWriter \<Rightarrow> int \<Rightarrow> error \<Rightarrow> string \<Rightarrow> Data \<Rightarrow> 'r state \<Rightarrow> ResponseWriter \<times> 'r state" where
  "errorHandler w status err receiver data st =
     (let w1 = WriteHeader w status;
          response = \<lparr>Error = True, Status = status, Message = ErrorText err\<rparr>;
          w2 = Write w1 (JSON response);
          st1 = Log st LevelError
                  [(''msg'', LogStr ''error handling request''),
                   (''statusCode'', LogInt status),
                   (''statusText'', LogStr (StatusText status)),
                   (''err'', LogErr err),
                   (''receiver'', LogStr receiver),
                   (''groupLabels'', LogKV (GroupLabels data))];
          st2 = st1\<lparr>requestTotal := Inc (requestTotal st1) (receiver, FormatInt status)\<rparr>
      in (w2, st2))"

text \<open>
  Lines 81 to 86: resolved alerts are filtered out; when some were dropped a warning is
  logged and the batch keeps the firing ones.
\<close>

definition filter_resolved :: "ReceiverConfig \<Rightarrow> Data \<Rightarrow> 'r state \<Rightarrow> Data \<times> 'r state" where
  "filter_resolved conf data st =
     (let alerts = Firing (Alerts data)
      in if length alerts < length (Alerts data)
         then (data\<lparr>Alerts := alerts\<rparr>,
               Log st LevelWarn
                 [(''msg'', LogStr ''receiver should have \"send_resolved: false\" set in Alertmanager config''),
                  (''receiver'', LogStr (Name conf))])
         else (data, st))"

text \<open>Lines 95 to 100: the status of a failed delivery, from the retry flag.\<close>

definition retry_status :: "bool \<Rightarrow> int" where
  "retry_status retry = (if retry then StatusServiceUnavailable else StatusInternalServerError)"

text \<open>
  Lines 88 to 106: the gateway is built and called only for a non-empty batch; a
  failure of either step goes to \<^verbatim>\<open>errorHandler\<close>, success increments the counter of
  status "200" and writes nothing.
\<close>

definition dispatch ::
  "'r collaborators \<Rightarrow> ReceiverConfig \<Rightarrow> Data \<Rightarrow> ResponseWriter \<Rightarrow> 'r state \<Rightarrow> ResponseWriter \<times> 'r state" where
  "dispatch c conf data w st =
     (if length (Alerts data) > 0
      then (let st1 = st\<lparr>gateway := gateway st @ [NewReceiverCall conf]\<rparr>
            in case notify_NewReceiver c conf of
                 Inl err \<Rightarrow> errorHandler w StatusInternalServerError err (Name conf) data st1
               | Inr r \<Rightarrow>
                   (let st2 = st1\<lparr>gateway := gateway st1 @ [NotifyCall r data]\<rparr>
                    in case Notify c r data of
                         (retry, Some err) \<Rightarrow> errorHandler w (retry_status retry) err (Name conf) data st2
                       | (retry, None) \<Rightarrow>
                           (w, st2\<lparr>requestTotal := Inc (requestTotal st2) (Name conf, ''200'')\<rparr>)))
      else (w, st\<lparr>requestTotal := Inc (requestTotal st) (Name conf, ''200'')\<rparr>))"

text \<open>The handler of \<^verbatim>\<open>/alert\<close> (lines 63 to 107), on the request body.\<close>

definition alert_handler ::
  "'r collaborators \<Rightarrow> string \<Rightarrow> ResponseWriter \<Rightarrow> 'r state \<Rightarrow> ResponseWriter \<times> 'r state" where
  "alert_handler c body w st =
     (let st0 = Log st LevelDebug [(''msg'', LogStr ''handling /alert webhook request'')]
      in case json_Decode c body of
           (data, Some err) \<Rightarrow> errorHandler w StatusBadRequest err unknownReceiver data st0
         | (data, None) \<Rightarrow>
             (case ReceiverByName (config c) (Receiver data) of
                None \<Rightarrow>
                  errorHandler w StatusNotFound (Err (''receiver missing: '' @ Receiver data))
                    unknownReceiver data st0
              | Some conf \<Rightarrow>
                  (let st1 = Log st0 LevelDebug
                               [(''msg'', LogStr ''  matched receiver''),
                                (''receiver'', LogStr (Name conf))];
                       (data1, st2) = filter_resolved conf data st1
                   in dispatch c conf data1 w st2)))"

text \<open>The handler of \<^verbatim>\<open>/healthz\<close> (line 111); it does not read the request.\<close>

definition healthz_handler :: "ResponseWriter \<Rightarrow> 'q \<Rightarrow> ResponseWriter" where
  "healthz_handler w req = http_Error w ''OK'' StatusOK"

section \<open>Sample collaborators and inputs\<close>

text \<open>
  Concrete inputs on which the handlers are evaluated: the receiver "team-a" of the
  scenarios of the specification (section 8), a firing and a resolved alert, a state with
  all counters at zero, and collaborators that answer every call with a fixed result.
\<close>

definition firing_alert :: Alert where
  "firing_alert = \<lparr>alert_status = ''firing'', Labels = Map.empty, Annotations = Map.empty,
                    StartsAt = [], EndsAt = []\<rparr>"

definition resolved_alert :: Alert where
  "resolved_alert = \<lparr>alert_status = ''resolved'', Labels = Map.empty, Annotations = Map.empty,
                      StartsAt = [], EndsAt = []\<rparr>"

definition team_a :: ReceiverConfig where
  "team_a = \<lparr>Name = ''team-a'', Params = Map.empty\<rparr>"

definition sample_config :: Config where
  "sample_config = \<lparr>Receivers = [team_a], Template = ''jiralert.tmpl''\<rparr>"

definition sample_state :: "unit state" where
  "sample_state = \<lparr>requestTotal = (\<lambda>k. 0), logger = [], gateway = []\<rparr>"

definition sample_collaborators ::
  "Data \<times> error option \<Rightarrow> error + unit \<Rightarrow> bool \<times> error option \<Rightarrow> unit collaborators" where
  "sample_collaborators decoded built notified =
     \<lparr>json_Decode = (\<lambda>body. decoded), config = sample_config,
      notify_NewReceiver = (\<lambda>conf. built), Notify = (\<lambda>r data. notified)\<rparr>"

definition batch :: "string \<Rightarrow> Alert list \<Rightarrow> Data" where
  "batch name as = \<lparr>Receiver = name, GroupLabels = [''alertname'' \<mapsto> ''HighLatency''], Alerts = as\<rparr>"

section \<open>Library facts\<close>

lemma FormatInt_status [simp]:
  "FormatInt StatusOK = ''200''"
  "FormatInt StatusBadRequest = ''400''"
  "FormatInt StatusNotFound = ''404''"
  "FormatInt StatusInternalServerError = ''500''"
  "FormatInt StatusServiceUnavailable = ''503''"
  by (simp_all add: FormatInt_def StatusOK_def StatusBadRequest_def StatusNotFound_def
      StatusInternalServerError_def StatusServiceUnavailable_def formatBits.simps)

lemma errorHandler_fresh:
  "errorHandler fresh_w status err receiver data st =
     (\<lparr>Header = Map.empty, wroteHeader = Some status,
       written = [JSON \<lparr>Error = True, Status = status, Message = ErrorText err\<rparr>]\<rparr>,
      st\<lparr>logger := logger st @
            [(LevelError,
              [(''msg'', LogStr ''error handling request''),
               (''statusCode'', LogInt status),
               (''statusText'', LogStr (StatusText status)),
               (''err'', LogErr err),
               (''receiver'', LogStr receiver),
               (''groupLabels'', LogKV (GroupLabels data))])],
          requestTotal := Inc (requestTotal st) (receiver, FormatInt status)\<rparr>)"
  by (simp add: errorHandler_def fresh_w_def WriteHeader_def Write_def Log_def Let_def)

lemma handler_decode_error:
  "json_Decode c body = (data, Some err) \<Longrightarrow>
   alert_handler c body w st =
     errorHandler w StatusBadRequest err unknownReceiver data
       (Log st LevelDebug [(''msg'', LogStr ''handling /alert webhook request'')])"
  by (simp add: alert_handler_def Let_def)

lemma handler_receiver_missing:
  "json_Decode c body = (data, None) \<Longrightarrow> ReceiverByName (config c) (Receiver data) = None \<Longrightarrow>
   alert_handler c body w st =
     errorHandler w StatusNotFound (Err (''receiver missing: '' @ Receiver data)) unknownReceiver data
       (Log st LevelDebug [(''msg'', LogStr ''handling /alert webhook request'')])"
  by (simp add: alert_handler_def Let_def)

lemma handler_matched:
  "json_Decode c body = (data, None) \<Longrightarrow> ReceiverByName (config c) (Receiver data) = Some conf \<Longrightarrow>
   alert_handler c body w st =
     (let st1 = Log (Log st LevelDebug [(''msg'', LogStr ''handling /alert webhook request'')])
                  LevelDebug [(''msg'', LogStr ''  matched receiver''), (''receiver'', LogStr (Name conf))]
      in dispatch c conf (fst (filter_resolved conf data st1)) w (snd (filter_resolved conf data st1)))"
  by (simp add: alert_handler_def Let_def split: prod.splits)

lemma ReceiverByName_None: "ReceiverByName cfg name = None \<longleftrightarrow> name \<notin> set (map Name (Receivers cfg))"
  by (auto simp: ReceiverByName_def find_None_iff)

lemma ReceiverByName_Some: "ReceiverByName cfg name = Some conf \<Longrightarrow> Name conf = name \<and> conf \<in> set (Receivers cfg)"
  by (auto simp: ReceiverByName_def find_Some_iff)

lemma filter_all_of_length: "length xs \<le> length (filter P xs) \<Longrightarrow> filter P xs = xs"
proof (induction xs)
  case Nil
  then show ?case by simp
next
  case (Cons x xs)
  have le: "length (filter P xs) \<le> length xs" by (rule length_filter_le)
  show ?case
  proof (cases "P x")
    case True
    with Cons show ?thesis by simp
  next
    case False
    with Cons.prems le show ?thesis by simp
  qed
qed

lemma filter_resolved_alerts: "Alerts (fst (filter_resolved conf data st)) = Firing (Alerts data)"
  by (simp add: filter_resolved_def Firing_def Let_def not_less filter_all_of_length)

lemma filter_resolved_fields:
  "Receiver (fst (filter_resolved conf data st)) = Receiver data"
  "GroupLabels (fst (filter_resolved conf data st)) = GroupLabels data"
  "gateway (snd (filter_resolved conf data st)) = gateway st"
  "requestTotal (snd (filter_resolved conf data st)) = requestTotal st"
  by (simp_all add: filter_resolved_def Let_def Log_def)

lemma filter_resolved_data: "fst (filter_resolved conf data st) = data\<lparr>Alerts := Firing (Alerts data)\<rparr>"
  by (simp add: filter_resolved_def Firing_def Let_def not_less filter_all_of_length)

lemma dispatch_empty:
  "Alerts data = [] \<Longrightarrow>
   dispatch c conf data w st = (w, st\<lparr>requestTotal := Inc (requestTotal st) (Name conf, ''200'')\<rparr>)"
  by (simp add: dispatch_def)

lemma dispatch_construction_error:
  "Alerts data \<noteq> [] \<Longrightarrow> notify_NewReceiver c conf = Inl err \<Longrightarrow>
   dispatch c conf data w st =
     errorHandler w StatusInternalServerError err (Name conf) data
       (st\<lparr>gateway := gateway st @ [NewReceiverCall conf]\<rparr>)"
  by (simp add: dispatch_def Let_def)

lemma dispatch_notify_error:
  "Alerts data \<noteq> [] \<Longrightarrow> notify_NewReceiver c conf = Inr r \<Longrightarrow> Notify c r data = (retry, Some err) \<Longrightarrow>
   dispatch c conf data w st =
     errorHandler w (retry_status retry) err (Name conf) data
       (st\<lparr>gateway := gateway st @ [NewReceiverCall conf, NotifyCall r data]\<rparr>)"
  by (simp add: dispatch_def Let_def)

lemma dispatch_notify_ok:
  "Alerts data \<noteq> [] \<Longrightarrow> notify_NewReceiver c conf = Inr r \<Longrightarrow> Notify c r data = (retry, None) \<Longrightarrow>
   dispatch c conf data w st =
     (w, st\<lparr>gateway := gateway st @ [NewReceiverCall conf, NotifyCall r data],
            requestTotal := Inc (requestTotal st) (Name conf, ''200'')\<rparr>)"
  by (simp add: dispatch_def Let_def)

lemma retry_status_cases: "retry_status True = 503" "retry_status False = 500"
  by (simp_all add: retry_status_def StatusServiceUnavailable_def StatusInternalServerError_def)

text \<open>The shape of every result of dispatch on a fresh writer.\<close>

lemma dispatch_fresh_cases:
  "(fst (dispatch c conf data fresh_w st) = fresh_w \<and>
    requestTotal (snd (dispatch c conf data fresh_w st)) = Inc (requestTotal st) (Name conf, ''200''))
   \<or> (\<exists>code err st'. (code = StatusInternalServerError \<or> code = StatusServiceUnavailable) \<and>
         dispatch c conf data fresh_w st = errorHandler fresh_w code err (Name conf) data st' \<and>
         requestTotal st' = requestTotal st)"
proof (cases "Alerts data = []")
  case True
  then show ?thesis by (simp add: dispatch_empty)
next
  case ne: False
  show ?thesis
  proof (cases "notify_NewReceiver c conf")
    case (Inl err)
    with ne have "dispatch c conf data fresh_w st =
        errorHandler fresh_w StatusInternalServerError err (Name conf) data
          (st\<lparr>gateway := gateway st @ [NewReceiverCall conf]\<rparr>)"
      by (rule dispatch_construction_error)
    then show ?thesis by force
  next
    case (Inr r)
    obtain retry res where nt: "Notify c r data = (retry, res)" by (cases "Notify c r data")
    show ?thesis
    proof (cases res)
      case None
      with ne Inr nt show ?thesis by (simp add: dispatch_notify_ok)
    next
      case (Some err)
      with ne Inr nt have "dispatch c conf data fresh_w st =
          errorHandler fresh_w (retry_status retry) err (Name conf) data
            (st\<lparr>gateway := gateway st @ [NewReceiverCall conf, NotifyCall r data]\<rparr>)"
        by (simp add: dispatch_notify_error)
      moreover have "retry_status retry = StatusInternalServerError \<or> retry_status retry = StatusServiceUnavailable"
        by (simp add: retry_status_def)
      ultimately show ?thesis by force
    qed
  qed
qed

lemmas status_defs = StatusOK_def StatusBadRequest_def StatusNotFound_def
  StatusInternalServerError_def StatusServiceUnavailable_def

lemma http_status_errorHandler:
  "http_status (fst (errorHandler fresh_w status err receiver data st)) = status"
  by (simp add: errorHandler_fresh http_status_def)

lemma sample_simps [simp]:
  "json_Decode (sample_collaborators decoded built notified) body = decoded"
  "config (sample_collaborators decoded built notified) = sample_config"
  "notify_NewReceiver (sample_collaborators decoded built notified) conf = built"
  "Notify (sample_collaborators decoded built notified) r data = notified"
  by (simp_all add: sample_collaborators_def)

lemma sample_lookup [simp]:
  "ReceiverByName sample_config ''team-a'' = Some team_a"
  "ReceiverByName sample_config ''ghost-team'' = None"
  by (simp_all add: ReceiverByName_def sample_config_def team_a_def)

lemma sample_firing [simp]:
  "Firing [firing_alert] = [firing_alert]"
  "Firing [resolved_alert] = []"
  "Firing [firing_alert, resolved_alert] = [firing_alert]"
  "Firing [] = []"
  by (simp_all add: Firing_def firing_alert_def resolved_alert_def)

lemma batch_simps [simp]:
  "Receiver (batch name as) = name"
  "Alerts (batch name as) = as"
  "GroupLabels (batch name as) = [''alertname'' \<mapsto> ''HighLatency'']"
  "(batch name as)\<lparr>Alerts := bs\<rparr> = batch name bs"
  by (simp_all add: batch_def)

lemma errorHandler_logger:
  "logger (snd (errorHandler w status err receiver data st)) =
     logger st @
       [(LevelError,
         [(''msg'', LogStr ''error handling request''),
          (''statusCode'', LogInt status),
          (''statusText'', LogStr (StatusText status)),
          (''err'', LogErr err),
          (''receiver'', LogStr receiver),
          (''groupLabels'', LogKV (GroupLabels data))])]"
  by (simp add: errorHandler_def Log_def Let_def)

lemma errorHandler_group_labels:
  "GroupLabels data' = GroupLabels data \<Longrightarrow>
   errorHandler w status err receiver data' st = errorHandler w status err receiver data st"
  by (simp add: errorHandler_def Let_def)

lemma alert_handler_cases:
  fixes c :: "'r collaborators" and st :: "'r state" and body :: string
  defines "L \<equiv> (case json_Decode c body of
                   (data, Some err) \<Rightarrow> unknownReceiver
                 | (data, None) \<Rightarrow>
                     (case ReceiverByName (config c) (Receiver data) of
                        None \<Rightarrow> unknownReceiver
                      | Some conf \<Rightarrow> Name conf))"
  shows "(fst (alert_handler c body fresh_w st) = fresh_w \<and>
          requestTotal (snd (alert_handler c body fresh_w st)) = Inc (requestTotal st) (L, ''200''))
       \<or> (\<exists>code err data (st' :: 'r state).
            (code = StatusBadRequest \<or> code = StatusNotFound \<or>
             code = StatusInternalServerError \<or> code = StatusServiceUnavailable) \<and>
            requestTotal st' = requestTotal st \<and>
            alert_handler c body fresh_w st = errorHandler fresh_w code err L data st')"
proof -
  let ?st0 = "Log st LevelDebug [(''msg'', LogStr ''handling /alert webhook request'')]"
  have r0: "requestTotal ?st0 = requestTotal st" by (simp add: Log_def)
  obtain data res where dec: "json_Decode c body = (data, res)" by (cases "json_Decode c body")
  show ?thesis
  proof (cases res)
    case (Some err)
    with dec have "alert_handler c body fresh_w st =
        errorHandler fresh_w StatusBadRequest err unknownReceiver data ?st0"
      by (simp add: handler_decode_error)
    moreover have "L = unknownReceiver" using dec Some by (simp add: L_def)
    ultimately show ?thesis using r0 by force
  next
    case None
    note ok = dec[unfolded None]
    show ?thesis
    proof (cases "ReceiverByName (config c) (Receiver data)")
      case None
      with ok have "alert_handler c body fresh_w st =
          errorHandler fresh_w StatusNotFound (Err (''receiver missing: '' @ Receiver data))
            unknownReceiver data ?st0"
        by (simp add: handler_receiver_missing)
      moreover have "L = unknownReceiver" using ok None by (simp add: L_def)
      ultimately show ?thesis using r0 by force
    next
      case (Some conf)
      let ?st1 = "Log ?st0 LevelDebug [(''msg'', LogStr ''  matched receiver''), (''receiver'', LogStr (Name conf))]"
      let ?d = "fst (filter_resolved conf data ?st1)"
      let ?st2 = "snd (filter_resolved conf data ?st1)"
      have h: "alert_handler c body fresh_w st = dispatch c conf ?d fresh_w ?st2"
        using ok Some by (simp add: handler_matched Let_def)
      have r2: "requestTotal ?st2 = requestTotal st"
        by (simp add: filter_resolved_fields Log_def)
      have l: "L = Name conf" using ok Some by (simp add: L_def)
      from dispatch_fresh_cases[of c conf ?d ?st2] show ?thesis
        unfolding h l r2 by (elim disjE exE conjE) (simp, force)+
    qed
  qed
qed

lemma http_status_simps [simp]:
  "http_status fresh_w = StatusOK"
  "http_status \<lparr>Header = h, wroteHeader = Some code, written = ws\<rparr> = code"
  by (simp_all add: http_status_def fresh_w_def)

lemma fresh_w_simps [simp]:
  "Header fresh_w = Map.empty" "wroteHeader fresh_w = None" "written fresh_w = []"
  by (simp_all add: fresh_w_def)

lemma fst_errorHandler_fresh:
  "fst (errorHandler fresh_w status err receiver data st) =
     fresh_w\<lparr>wroteHeader := Some status,
             written := [JSON \<lparr>Error = True, Status = status, Message = ErrorText err\<rparr>]\<rparr>"
  unfolding errorHandler_fresh by (simp add: fresh_w_def)

lemma handler_dispatch_ok:
  assumes "json_Decode c body = (data, None)"
    and "ReceiverByName (config c) (Receiver data) = Some conf"
    and "Firing (Alerts data) \<noteq> []"
    and "notify_NewReceiver c conf = Inr r"
    and "Notify c r (data\<lparr>Alerts := Firing (Alerts data)\<rparr>) = (retry, None)"
  shows "fst (alert_handler c body w st) = w"
proof -
  have ne: "Alerts (data\<lparr>Alerts := Firing (Alerts data)\<rparr>) \<noteq> []" using assms(3) by simp
  show ?thesis
    using assms(1,2)
    by (simp add: handler_matched Let_def filter_resolved_data dispatch_notify_ok[OF ne assms(4,5)])
qed

lemma alert_handler_failure:
  "fst (alert_handler c body fresh_w st) = fresh_w
   \<or> (\<exists>code err receiver data st'.
         (code = StatusBadRequest \<or> code = StatusNotFound \<or>
          code = StatusInternalServerError \<or> code = StatusServiceUnavailable) \<and>
         alert_handler c body fresh_w st = errorHandler fresh_w code err receiver data st')"
  using alert_handler_cases[of c body st]
  by (elim disjE exE conjE) (simp, blast+)

lemma handler_construction_error:
  assumes "json_Decode c body = (data, None)"
    and "ReceiverByName (config c) (Receiver data) = Some conf"
    and "Firing (Alerts data) \<noteq> []"
    and "notify_NewReceiver c conf = Inl err"
  shows "fst (alert_handler c body fresh_w st) =
     fresh_w\<lparr>wroteHeader := Some 500,
             written := [JSON \<lparr>Error = True, Status = 500, Message = ErrorText err\<rparr>]\<rparr>"
proof -
  have ne: "Alerts (data\<lparr>Alerts := Firing (Alerts data)\<rparr>) \<noteq> []" using assms(3) by simp
  show ?thesis
    using assms(1,2)
    by (simp add: handler_matched Let_def filter_resolved_data
        dispatch_construction_error[OF ne assms(4)] fst_errorHandler_fresh StatusInternalServerError_def)
qed

lemma handler_notify_error:
  assumes "json_Decode c body = (data, None)"
    and "ReceiverByName (config c) (Receiver data) = Some conf"
    and "Firing (Alerts data) \<noteq> []"
    and "notify_NewReceiver c conf = Inr r"
    and "Notify c r (data\<lparr>Alerts := Firing (Alerts data)\<rparr>) = (retry, Some err)"
  shows "fst (alert_handler c body fresh_w st) =
     fresh_w\<lparr>wroteHeader := Some (if retry then 503 else 500),
             written := [JSON \<lparr>Error = True, Status = (if retry then 503 else 500),
                               Message = ErrorText err\<rparr>]\<rparr>"
proof -
  have ne: "Alerts (data\<lparr>Alerts := Firing (Alerts data)\<rparr>) \<noteq> []" using assms(3) by simp
  have rs: "retry_status retry = (if retry then 503 else 500)"
    by (simp add: retry_status_cases)
  show ?thesis
    using assms(1,2)
    by (simp add: handler_matched Let_def filter_resolved_data
        dispatch_notify_error[OF ne assms(4,5)] fst_errorHandler_fresh rs del: if_split)
qed

lemma handler_no_firing:
  assumes "json_Decode c body = (data, None)"
    and "ReceiverByName (config c) (Receiver data) = Some conf"
    and "Firing (Alerts data) = []"
  shows "fst (alert_handler c body w st) = w"
  using assms by (simp add: handler_matched Let_def dispatch_empty filter_resolved_alerts)

lemma handler_decode_error_writer:
  assumes "json_Decode c body = (data, Some err)"
  shows "fst (alert_handler c body fresh_w st) =
     fresh_w\<lparr>wroteHeader := Some 400,
             written := [JSON \<lparr>Error = True, Status = 400, Message = ErrorText err\<rparr>]\<rparr>"
  by (simp add: handler_decode_error[OF assms] fst_errorHandler_fresh StatusBadRequest_def)

lemma handler_receiver_missing_writer:
  assumes "json_Decode c body = (data, None)"
    and "ReceiverByName (config c) (Receiver data) = None"
  shows "fst (alert_handler c body fresh_w st) =
     fresh_w\<lparr>wroteHeader := Some 404,
             written := [JSON \<lparr>Error = True, Status = 404,
                               Message = ''receiver missing: '' @ Receiver data\<rparr>]\<rparr>"
  by (simp add: handler_receiver_missing[OF assms] fst_errorHandler_fresh StatusNotFound_def)

lemma envelope_writer:
  "W = fresh_w\<lparr>wroteHeader := Some code, written := [JSON e]\<rparr> \<Longrightarrow>
   http_status W = code \<and> written W = [JSON e]"
  by (simp add: http_status_def)

lemma empty_writer:
  "W = fresh_w \<Longrightarrow> wroteHeader W = None \<and> http_status W = 200 \<and> written W = []"
  by (simp add: StatusOK_def)

section \<open>Claims\<close>

text \<open>
  C1. Failure classification on POST /alert fixes the response status. For a decoded batch
  with a configured receiver and at least one firing alert: when building the gateway
  fails, the response status is 500; when delivery fails, the status is 503 if the retry
  flag is set and 500 otherwise. Both failures end in the same \<^verbatim>\<open>errorHandler\<close> call,
  under the matched receiver's name and with the filtered batch. The classification
  \<open>retry_status\<close> is a total function of the retry flag.
\<close>

theorem C1_failure_classification:
  assumes "json_Decode c body = (data, None)"
    and "ReceiverByName (config c) (Receiver data) = Some conf"
    and "Firing (Alerts data) \<noteq> []"
  shows "(\<forall>err. notify_NewReceiver c conf = Inl err \<longrightarrow>
            http_status (fst (alert_handler c body fresh_w st)) = 500 \<and>
            (\<exists>st'. alert_handler c body fresh_w st =
               errorHandler fresh_w StatusInternalServerError err (Name conf)
                 (data\<lparr>Alerts := Firing (Alerts data)\<rparr>) st'))
       \<and> (\<forall>r retry err.
            notify_NewReceiver c conf = Inr r \<and>
            Notify c r (data\<lparr>Alerts := Firing (Alerts data)\<rparr>) = (retry, Some err) \<longrightarrow>
            http_status (fst (alert_handler c body fresh_w st)) = (if retry then 503 else 500) \<and>
            (\<exists>st'. alert_handler c body fresh_w st =
               errorHandler fresh_w (retry_status retry) err (Name conf)
                 (data\<lparr>Alerts := Firing (Alerts data)\<rparr>) st'))
       \<and> retry_status True = 503 \<and> retry_status False = 500"
proof -
  let ?d = "data\<lparr>Alerts := Firing (Alerts data)\<rparr>"
  let ?st1 = "Log (Log st LevelDebug [(''msg'', LogStr ''handling /alert webhook request'')])
                LevelDebug [(''msg'', LogStr ''  matched receiver''), (''receiver'', LogStr (Name conf))]"
  let ?st2 = "snd (filter_resolved conf data ?st1)"
  have h: "alert_handler c body fresh_w st = dispatch c conf ?d fresh_w ?st2"
    using assms(1,2) by (simp add: handler_matched Let_def filter_resolved_data)
  have ne: "Alerts ?d \<noteq> []" using assms(3) by simp
  have a: "http_status (fst (alert_handler c body fresh_w st)) = 500 \<and>
        (\<exists>st'. alert_handler c body fresh_w st =
           errorHandler fresh_w StatusInternalServerError err (Name conf) ?d st')"
    if "notify_NewReceiver c conf = Inl err" for err
    using dispatch_construction_error[OF ne that, of fresh_w ?st2] h
    by (auto simp: http_status_errorHandler StatusInternalServerError_def)
  have b: "http_status (fst (alert_handler c body fresh_w st)) = (if retry then 503 else 500) \<and>
        (\<exists>st'. alert_handler c body fresh_w st =
           errorHandler fresh_w (retry_status retry) err (Name conf) ?d st')"
    if "notify_NewReceiver c conf = Inr r" "Notify c r ?d = (retry, Some err)" for r retry err
    using dispatch_notify_error[OF ne that, of fresh_w ?st2] h
    by (auto simp: http_status_errorHandler retry_status_cases)
  from a b show ?thesis by (simp add: retry_status_cases)
qed

theorem C1_witness:
  "http_status (fst (alert_handler
      (sample_collaborators (batch ''team-a'' [firing_alert], None) (Inr ())
         (True, Some (Err ''jira: service unavailable'')))
      ''{}'' fresh_w sample_state)) = 503 \<and>
   http_status (fst (alert_handler
      (sample_collaborators (batch ''team-a'' [firing_alert], None) (Inl (Err ''bad receiver'')) (False, None))
      ''{}'' fresh_w sample_state)) = 500"
proof -
  let ?d = "batch ''team-a'' [firing_alert]"
  let ?c = "sample_collaborators (?d, None) (Inr ()) (True, Some (Err ''jira: service unavailable''))"
  let ?c' = "sample_collaborators (?d, None) (Inl (Err ''bad receiver'')) (False, None)"
  have h1: "json_Decode ?c ''{}'' = (?d, None)" and h1': "json_Decode ?c' ''{}'' = (?d, None)"
    by simp_all
  have h2: "ReceiverByName (config ?c) (Receiver ?d) = Some team_a"
    and h2': "ReceiverByName (config ?c') (Receiver ?d) = Some team_a" by simp_all
  have h3: "Firing (Alerts ?d) \<noteq> []" by simp
  have n: "notify_NewReceiver ?c team_a = Inr () \<and>
      Notify ?c () (?d\<lparr>Alerts := Firing (Alerts ?d)\<rparr>) = (True, Some (Err ''jira: service unavailable''))"
    by simp
  have n': "notify_NewReceiver ?c' team_a = Inl (Err ''bad receiver'')" by simp
  from C1_failure_classification[OF h1 h2 h3, of sample_state] n
  have a: "http_status (fst (alert_handler ?c ''{}'' fresh_w sample_state)) = (if True then 503 else 500)"
    by blast
  from C1_failure_classification[OF h1' h2' h3, of sample_state] n'
  have b: "http_status (fst (alert_handler ?c' ''{}'' fresh_w sample_state)) = 500"
    by blast
  from a b show ?thesis by simp
qed

text \<open>
  C2. For every decoded batch whose firing subset is empty (a batch with no alerts
  included) the notifier gateway is never invoked: no call to \<^verbatim>\<open>notify.NewReceiver\<close> or
  \<^verbatim>\<open>Notify\<close> is made. When the receiver of the batch is configured, the handler writes
  nothing, the response status is 200 and the counter of the receiver with status "200"
  goes up by one. When it is not, the request fails with status 404: routing (lines 74 to
  78) runs before the filter.
\<close>

theorem C2_no_firing_alerts:
  assumes "json_Decode c body = (data, None)"
    and "Firing (Alerts data) = []"
  shows "gateway (snd (alert_handler c body fresh_w st)) = gateway st \<and>
         (\<forall>conf. ReceiverByName (config c) (Receiver data) = Some conf \<longrightarrow>
            fst (alert_handler c body fresh_w st) = fresh_w \<and>
            http_status (fst (alert_handler c body fresh_w st)) = 200 \<and>
            requestTotal (snd (alert_handler c body fresh_w st)) =
              (requestTotal st)((Name conf, ''200'') := requestTotal st (Name conf, ''200'') + 1)) \<and>
         (ReceiverByName (config c) (Receiver data) = None \<longrightarrow>
            http_status (fst (alert_handler c body fresh_w st)) = 404)"
proof (cases "ReceiverByName (config c) (Receiver data)")
  case None
  with assms(1) have "alert_handler c body fresh_w st =
      errorHandler fresh_w StatusNotFound (Err (''receiver missing: '' @ Receiver data)) unknownReceiver data
        (Log st LevelDebug [(''msg'', LogStr ''handling /alert webhook request'')])"
    by (rule handler_receiver_missing)
  then show ?thesis using None
    unfolding errorHandler_fresh by (simp add: Log_def StatusNotFound_def)
next
  case (Some conf)
  let ?st1 = "Log (Log st LevelDebug [(''msg'', LogStr ''handling /alert webhook request'')])
                LevelDebug [(''msg'', LogStr ''  matched receiver''), (''receiver'', LogStr (Name conf))]"
  have e: "Alerts (fst (filter_resolved conf data ?st1)) = []"
    using assms(2) by (simp add: filter_resolved_alerts)
  have "alert_handler c body fresh_w st =
      (fresh_w, (snd (filter_resolved conf data ?st1))
         \<lparr>requestTotal := Inc (requestTotal (snd (filter_resolved conf data ?st1))) (Name conf, ''200'')\<rparr>)"
    using assms(1) Some by (simp add: handler_matched Let_def dispatch_empty[OF e])
  then show ?thesis using Some
    by (simp add: filter_resolved_fields Log_def Inc_def StatusOK_def)
qed

theorem C2_witness:
  "gateway (snd (alert_handler
      (sample_collaborators (batch ''team-a'' [resolved_alert], None) (Inr ()) (False, None))
      ''{}'' fresh_w sample_state)) = [] \<and>
   http_status (fst (alert_handler
      (sample_collaborators (batch ''team-a'' [resolved_alert], None) (Inr ()) (False, None))
      ''{}'' fresh_w sample_state)) = 200 \<and>
   requestTotal (snd (alert_handler
      (sample_collaborators (batch ''team-a'' [resolved_alert], None) (Inr ()) (False, None))
      ''{}'' fresh_w sample_state)) (''team-a'', ''200'') = 1"
proof -
  let ?d = "batch ''team-a'' [resolved_alert]"
  let ?c = "sample_collaborators (?d, None) (Inr ()) (False, None)"
  have h1: "json_Decode ?c ''{}'' = (?d, None)" by simp
  have h2: "Firing (Alerts ?d) = []" by simp
  have h3: "ReceiverByName (config ?c) (Receiver ?d) = Some team_a" by simp
  from C2_no_firing_alerts[OF h1 h2, of sample_state] h3 show ?thesis
    by (simp add: sample_state_def team_a_def http_status_def fresh_w_def StatusOK_def)
qed

text \<open>
  A decoded batch for the receiver "ghost-team", which is not configured, with one
  resolved alert: its firing subset is empty and the response status is 404.
\<close>

theorem C2_counterexample:
  "json_Decode (sample_collaborators (batch ''ghost-team'' [resolved_alert], None) (Inr ()) (False, None)) ''{}''
     = (batch ''ghost-team'' [resolved_alert], None) \<and>
   Firing (Alerts (batch ''ghost-team'' [resolved_alert])) = [] \<and>
   http_status (fst (alert_handler
      (sample_collaborators (batch ''ghost-team'' [resolved_alert], None) (Inr ()) (False, None))
      ''{}'' fresh_w sample_state)) = 404 \<and>
   http_status (fst (alert_handler
      (sample_collaborators (batch ''ghost-team'' [resolved_alert], None) (Inr ()) (False, None))
      ''{}'' fresh_w sample_state)) \<noteq> 200"
  by (simp add: handler_receiver_missing http_status_errorHandler StatusNotFound_def)

text \<open>
  C3. For every decoded batch whose receiver name is not among the configured receivers,
  the response has status 404 and the envelope with message "receiver missing: " followed
  by the name; the diagnostic record and the counter use the receiver label "<unknown>",
  not the name of the payload, and the gateway is not invoked.
\<close>

theorem C3_receiver_missing:
  assumes "json_Decode c body = (data, None)"
    and "Receiver data \<notin> set (map Name (Receivers (config c)))"
  shows "fst (alert_handler c body fresh_w st) =
           fresh_w\<lparr>wroteHeader := Some 404,
                   written := [JSON \<lparr>Error = True, Status = 404,
                                     Message = ''receiver missing: '' @ Receiver data\<rparr>]\<rparr> \<and>
         http_status (fst (alert_handler c body fresh_w st)) = 404 \<and>
         last (logger (snd (alert_handler c body fresh_w st))) =
           (LevelError,
            [(''msg'', LogStr ''error handling request''),
             (''statusCode'', LogInt 404),
             (''statusText'', LogStr ''Not Found''),
             (''err'', LogErr (Err (''receiver missing: '' @ Receiver data))),
             (''receiver'', LogStr ''<unknown>''),
             (''groupLabels'', LogKV (GroupLabels data))]) \<and>
         requestTotal (snd (alert_handler c body fresh_w st)) =
           (requestTotal st)((''<unknown>'', ''404'') := requestTotal st (''<unknown>'', ''404'') + 1) \<and>
         gateway (snd (alert_handler c body fresh_w st)) = gateway st"
proof -
  have "ReceiverByName (config c) (Receiver data) = None"
    using assms(2) by (simp add: ReceiverByName_None)
  with assms(1) have "alert_handler c body fresh_w st =
      errorHandler fresh_w StatusNotFound (Err (''receiver missing: '' @ Receiver data)) unknownReceiver data
        (Log st LevelDebug [(''msg'', LogStr ''handling /alert webhook request'')])"
    by (rule handler_receiver_missing)
  then show ?thesis
    unfolding errorHandler_fresh
    by (simp add: Log_def Inc_def http_status_def fresh_w_def unknownReceiver_def StatusText_def
        StatusNotFound_def formatBits.simps FormatInt_def)
qed

theorem C3_witness:
  "written (fst (alert_handler
      (sample_collaborators (batch ''ghost-team'' [firing_alert], None) (Inr ()) (False, None))
      ''{}'' fresh_w sample_state)) =
     [JSON \<lparr>Error = True, Status = 404, Message = ''receiver missing: ghost-team''\<rparr>] \<and>
   requestTotal (snd (alert_handler
      (sample_collaborators (batch ''ghost-team'' [firing_alert], None) (Inr ()) (False, None))
      ''{}'' fresh_w sample_state)) (''<unknown>'', ''404'') = 1"
proof -
  let ?d = "batch ''ghost-team'' [firing_alert]"
  let ?c = "sample_collaborators (?d, None) (Inr ()) (False, None)"
  have h1: "json_Decode ?c ''{}'' = (?d, None)" by simp
  have h2: "Receiver ?d \<notin> set (map Name (Receivers (config ?c)))"
    by (simp add: sample_config_def team_a_def)
  from C3_receiver_missing[OF h1 h2, of sample_state] show ?thesis
    by (simp add: sample_state_def)
qed

text \<open>
  C4. For every request body on which decoding fails, the response has status 400 and
  the envelope of the decoding error, and the gateway is not invoked. The handler stops
  before routing and filtering: its result is the same under any configuration and any
  gateway.
\<close>

theorem C4_malformed_body:
  assumes "json_Decode c body = (data, Some err)"
  shows "fst (alert_handler c body fresh_w st) =
           fresh_w\<lparr>wroteHeader := Some 400,
                   written := [JSON \<lparr>Error = True, Status = 400, Message = ErrorText err\<rparr>]\<rparr> \<and>
         http_status (fst (alert_handler c body fresh_w st)) = 400 \<and>
         gateway (snd (alert_handler c body fresh_w st)) = gateway st \<and>
         alert_handler (c\<lparr>config := cfg, notify_NewReceiver := build, Notify := deliver\<rparr>) body w st =
           alert_handler c body w st"
proof -
  let ?c' = "c\<lparr>config := cfg, notify_NewReceiver := build, Notify := deliver\<rparr>"
  have d': "json_Decode ?c' body = (data, Some err)" using assms by simp
  have "alert_handler c body fresh_w st =
      errorHandler fresh_w StatusBadRequest err unknownReceiver data
        (Log st LevelDebug [(''msg'', LogStr ''handling /alert webhook request'')])"
    using assms by (rule handler_decode_error)
  then have a: "fst (alert_handler c body fresh_w st) =
           fresh_w\<lparr>wroteHeader := Some 400,
                   written := [JSON \<lparr>Error = True, Status = 400, Message = ErrorText err\<rparr>]\<rparr> \<and>
         http_status (fst (alert_handler c body fresh_w st)) = 400 \<and>
         gateway (snd (alert_handler c body fresh_w st)) = gateway st"
    unfolding errorHandler_fresh
    by (simp add: Log_def http_status_def fresh_w_def StatusBadRequest_def)
  have b: "alert_handler ?c' body w st = alert_handler c body w st"
    by (simp only: handler_decode_error[OF d'] handler_decode_error[OF assms])
  from a b show ?thesis by blast
qed

theorem C4_witness:
  "http_status (fst (alert_handler
      (sample_collaborators (zero_Data, Some (Err ''EOF'')) (Inr ()) (False, None))
      [] fresh_w sample_state)) = 400 \<and>
   gateway (snd (alert_handler
      (sample_collaborators (zero_Data, Some (Err ''EOF'')) (Inr ()) (False, None))
      [] fresh_w sample_state)) = []"
proof -
  let ?c = "sample_collaborators (zero_Data, Some (Err ''EOF'')) (Inr ()) (False, None)"
  have h: "json_Decode ?c [] = (zero_Data, Some (Err ''EOF''))" by simp
  from C4_malformed_body[OF h, of sample_state] show ?thesis
    by (simp add: sample_state_def http_status_def fresh_w_def)
qed

text \<open>
  C5. The response of POST /alert, path by path. A request that fails is answered with
  one JSON envelope whose \<open>Error\<close> is true, whose \<open>Status\<close> is the HTTP status and whose
  \<open>Message\<close> is the text of the error: 400 with the decoding error, 404 with "receiver
  missing: " and the name, 500 with the error of \<^verbatim>\<open>notify.NewReceiver\<close>, and 503 or 500
  with the error of \<^verbatim>\<open>Notify\<close>, by the retry flag. A request that does not fail (a
  successful dispatch, or a batch with no firing alert for a configured receiver) is
  answered with status 200 and an empty body: the handler writes no header and no
  envelope, so there is no envelope whose \<open>Error\<close> is false.
\<close>

theorem C5_response_shape:
  fixes c :: "'r collaborators" and st :: "'r state" and body :: string
  defines "W \<equiv> fst (alert_handler c body fresh_w st)"
  shows
   "(\<forall>data err. json_Decode c body = (data, Some err) \<longrightarrow>
       http_status W = 400 \<and>
       written W = [JSON \<lparr>Error = True, Status = 400, Message = ErrorText err\<rparr>]) \<and>
    (\<forall>data. json_Decode c body = (data, None) \<and>
         ReceiverByName (config c) (Receiver data) = None \<longrightarrow>
       http_status W = 404 \<and>
       written W = [JSON \<lparr>Error = True, Status = 404,
                           Message = ''receiver missing: '' @ Receiver data\<rparr>]) \<and>
    (\<forall>data conf err. json_Decode c body = (data, None) \<and>
         ReceiverByName (config c) (Receiver data) = Some conf \<and>
         Firing (Alerts data) \<noteq> [] \<and>
         notify_NewReceiver c conf = Inl err \<longrightarrow>
       http_status W = 500 \<and>
       written W = [JSON \<lparr>Error = True, Status = 500, Message = ErrorText err\<rparr>]) \<and>
    (\<forall>data conf r retry err. json_Decode c body = (data, None) \<and>
         ReceiverByName (config c) (Receiver data) = Some conf \<and>
         Firing (Alerts data) \<noteq> [] \<and>
         notify_NewReceiver c conf = Inr r \<and>
         Notify c r (data\<lparr>Alerts := Firing (Alerts data)\<rparr>) = (retry, Some err) \<longrightarrow>
       http_status W = (if retry then 503 else 500) \<and>
       written W = [JSON \<lparr>Error = True, Status = (if retry then 503 else 500),
                           Message = ErrorText err\<rparr>]) \<and>
    (\<forall>data conf r retry. json_Decode c body = (data, None) \<and>
         ReceiverByName (config c) (Receiver data) = Some conf \<and>
         Firing (Alerts data) \<noteq> [] \<and>
         notify_NewReceiver c conf = Inr r \<and>
         Notify c r (data\<lparr>Alerts := Firing (Alerts data)\<rparr>) = (retry, None) \<longrightarrow>
       wroteHeader W = None \<and> http_status W = 200 \<and> written W = []) \<and>
    (\<forall>data conf. json_Decode c body = (data, None) \<and>
         ReceiverByName (config c) (Receiver data) = Some conf \<and>
         Firing (Alerts data) = [] \<longrightarrow>
       wroteHeader W = None \<and> http_status W = 200 \<and> written W = [])"
proof -
  have a: "http_status W = 400 \<and>
       written W = [JSON \<lparr>Error = True, Status = 400, Message = ErrorText err\<rparr>]"
    if "json_Decode c body = (data, Some err)" for data err
    unfolding W_def by (rule envelope_writer[OF handler_decode_error_writer[OF that]])
  have b: "http_status W = 404 \<and>
       written W = [JSON \<lparr>Error = True, Status = 404,
                           Message = ''receiver missing: '' @ Receiver data\<rparr>]"
    if "json_Decode c body = (data, None)" "ReceiverByName (config c) (Receiver data) = None"
    for data
    unfolding W_def by (rule envelope_writer[OF handler_receiver_missing_writer[OF that]])
  have d: "http_status W = 500 \<and>
       written W = [JSON \<lparr>Error = True, Status = 500, Message = ErrorText err\<rparr>]"
    if "json_Decode c body = (data, None)" "ReceiverByName (config c) (Receiver data) = Some conf"
      "Firing (Alerts data) \<noteq> []" "notify_NewReceiver c conf = Inl err"
    for data conf err
    unfolding W_def by (rule envelope_writer[OF handler_construction_error[OF that]])
  have e: "http_status W = (if retry then 503 else 500) \<and>
       written W = [JSON \<lparr>Error = True, Status = (if retry then 503 else 500),
                           Message = ErrorText err\<rparr>]"
    if "json_Decode c body = (data, None)" "ReceiverByName (config c) (Receiver data) = Some conf"
      "Firing (Alerts data) \<noteq> []" "notify_NewReceiver c conf = Inr r"
      "Notify c r (data\<lparr>Alerts := Firing (Alerts data)\<rparr>) = (retry, Some err)"
    for data conf r retry err
    unfolding W_def by (rule envelope_writer[OF handler_notify_error[OF that]])
  have f: "wroteHeader W = None \<and> http_status W = 200 \<and> written W = []"
    if "json_Decode c body = (data, None)" "ReceiverByName (config c) (Receiver data) = Some conf"
      "Firing (Alerts data) \<noteq> []" "notify_NewReceiver c conf = Inr r"
      "Notify c r (data\<lparr>Alerts := Firing (Alerts data)\<rparr>) = (retry, None)"
    for data conf r retry
    unfolding W_def by (rule empty_writer[OF handler_dispatch_ok[OF that]])
  have g: "wroteHeader W = None \<and> http_status W = 200 \<and> written W = []"
    if "json_Decode c body = (data, None)" "ReceiverByName (config c) (Receiver data) = Some conf"
      "Firing (Alerts data) = []"
    for data conf
    unfolding W_def by (rule empty_writer[OF handler_no_firing[OF that]])
  from a b d e f g show ?thesis by blast
qed

theorem C5_witness:
  "http_status (fst (alert_handler
      (sample_collaborators (batch ''team-a'' [firing_alert], None) (Inr ()) (False, None))
      ''{}'' fresh_w sample_state)) = 200 \<and>
   written (fst (alert_handler
      (sample_collaborators (batch ''team-a'' [firing_alert], None) (Inr ()) (False, None))
      ''{}'' fresh_w sample_state)) = [] \<and>
   http_status (fst (alert_handler
      (sample_collaborators (batch ''team-a'' [firing_alert], None) (Inr ())
         (True, Some (Err ''jira: service unavailable'')))
      ''{}'' fresh_w sample_state)) = 503 \<and>
   written (fst (alert_handler
      (sample_collaborators (batch ''team-a'' [firing_alert], None) (Inr ())
         (True, Some (Err ''jira: service unavailable'')))
      ''{}'' fresh_w sample_state)) =
     [JSON \<lparr>Error = True, Status = 503, Message = ''jira: service unavailable''\<rparr>]"
proof -
  let ?d = "batch ''team-a'' [firing_alert]"
  let ?ok = "sample_collaborators (?d, None) (Inr ()) (False, None)"
  let ?ko = "sample_collaborators (?d, None) (Inr ()) (True, Some (Err ''jira: service unavailable''))"
  have h: "json_Decode ?ok ''{}'' = (?d, None) \<and>
      ReceiverByName (config ?ok) (Receiver ?d) = Some team_a \<and>
      Firing (Alerts ?d) \<noteq> [] \<and>
      notify_NewReceiver ?ok team_a = Inr () \<and>
      Notify ?ok () (?d\<lparr>Alerts := Firing (Alerts ?d)\<rparr>) = (False, None)"
    by simp
  have k: "json_Decode ?ko ''{}'' = (?d, None) \<and>
      ReceiverByName (config ?ko) (Receiver ?d) = Some team_a \<and>
      Firing (Alerts ?d) \<noteq> [] \<and>
      notify_NewReceiver ?ko team_a = Inr () \<and>
      Notify ?ko () (?d\<lparr>Alerts := Firing (Alerts ?d)\<rparr>) = (True, Some (Err ''jira: service unavailable''))"
    by simp
  from C5_response_shape[of ?ok "''{}''" sample_state] h
  have a: "http_status (fst (alert_handler ?ok ''{}'' fresh_w sample_state)) = 200 \<and>
      written (fst (alert_handler ?ok ''{}'' fresh_w sample_state)) = []"
    by blast
  from C5_response_shape[of ?ko "''{}''" sample_state] k
  have b: "http_status (fst (alert_handler ?ko ''{}'' fresh_w sample_state)) = (if True then 503 else 500) \<and>
      written (fst (alert_handler ?ko ''{}'' fresh_w sample_state)) =
        [JSON \<lparr>Error = True, Status = (if True then 503 else 500),
                Message = ErrorText (Err ''jira: service unavailable'')\<rparr>]"
    by blast
  from a b show ?thesis by simp
qed

text \<open>
  Scenario 1 of the specification: receiver "team-a", one firing alert, the gateway
  succeeds. The gateway is called once and nothing is written to the response.
\<close>

theorem C5_counterexample:
  "fst (alert_handler
      (sample_collaborators (batch ''team-a'' [firing_alert], None) (Inr ()) (False, None))
      ''{}'' fresh_w sample_state) = fresh_w \<and>
   gateway (snd (alert_handler
      (sample_collaborators (batch ''team-a'' [firing_alert], None) (Inr ()) (False, None))
      ''{}'' fresh_w sample_state)) =
     [NewReceiverCall team_a, NotifyCall () (batch ''team-a'' [firing_alert])] \<and>
   written (fst (alert_handler
      (sample_collaborators (batch ''team-a'' [firing_alert], None) (Inr ()) (False, None))
      ''{}'' fresh_w sample_state)) \<noteq>
     [JSON \<lparr>Error = False, Status = 200, Message = []\<rparr>]"
  by (simp add: handler_matched filter_resolved_data filter_resolved_fields dispatch_def Let_def
      Log_def sample_state_def fresh_w_def)

text \<open>
  C6. When decoding fails, the handler hands the batch as the decoder left it to
  \<^verbatim>\<open>errorHandler\<close> (line 70), which passes its group labels to the logger under the key
  "groupLabels" (line 143). The request is answered with status 400 and the envelope of
  the decoding error, the gateway is not invoked and the counter labelled "<unknown>"
  and "400" goes up by one. Of the batch only the group labels are read: two failed
  decodings with the same error and the same group labels give the same result,
  whatever receiver name and alerts were left, and whatever the configuration and the
  gateway. The key/value pairs handed to the logger hold the group labels the decoder
  left, under the receiver label "<unknown>"; how the logger prints that value is up to
  the log format. So a decoder that fills fields before it fails (as \<^verbatim>\<open>encoding/json\<close>
  does on a type mismatch: it skips the field, completes the rest and returns the error)
  has its group labels retained and handed on.
\<close>

theorem C6_decode_failure_reads_group_labels_only:
  assumes "json_Decode c body = (data, Some err)"
    and "json_Decode c' body' = (data', Some err)"
    and "GroupLabels data' = GroupLabels data"
  shows "alert_handler c' body' w st = alert_handler c body w st \<and>
         fst (alert_handler c body fresh_w st) =
           fresh_w\<lparr>wroteHeader := Some 400,
                   written := [JSON \<lparr>Error = True, Status = 400, Message = ErrorText err\<rparr>]\<rparr> \<and>
         http_status (fst (alert_handler c body fresh_w st)) = 400 \<and>
         gateway (snd (alert_handler c body w st)) = gateway st \<and>
         requestTotal (snd (alert_handler c body w st)) =
           (requestTotal st)((''<unknown>'', ''400'') := requestTotal st (''<unknown>'', ''400'') + 1) \<and>
         logger (snd (alert_handler c body w st)) =
           logger st @
             [(LevelDebug, [(''msg'', LogStr ''handling /alert webhook request'')]),
              (LevelError,
               [(''msg'', LogStr ''error handling request''),
                (''statusCode'', LogInt 400),
                (''statusText'', LogStr ''Bad Request''),
                (''err'', LogErr err),
                (''receiver'', LogStr ''<unknown>''),
                (''groupLabels'', LogKV (GroupLabels data))])]"
proof -
  have same: "alert_handler c' body' w st = alert_handler c body w st"
    by (simp only: handler_decode_error[OF assms(1)] handler_decode_error[OF assms(2)]
        errorHandler_group_labels[OF assms(3)])
  have wr: "fst (alert_handler c body fresh_w st) =
           fresh_w\<lparr>wroteHeader := Some 400,
                   written := [JSON \<lparr>Error = True, Status = 400, Message = ErrorText err\<rparr>]\<rparr>"
    by (rule handler_decode_error_writer[OF assms(1)])
  then have hs: "http_status (fst (alert_handler c body fresh_w st)) = 400"
    by (simp add: http_status_def)
  have gw: "gateway (snd (alert_handler c body w st)) = gateway st"
    unfolding handler_decode_error[OF assms(1)]
    by (simp add: errorHandler_def Log_def Let_def)
  have rt: "requestTotal (snd (alert_handler c body w st)) =
           (requestTotal st)((''<unknown>'', ''400'') := requestTotal st (''<unknown>'', ''400'') + 1)"
    unfolding handler_decode_error[OF assms(1)]
    by (simp add: errorHandler_def Log_def Let_def Inc_def unknownReceiver_def)
  have lg: "logger (snd (alert_handler c body w st)) =
           logger st @
             [(LevelDebug, [(''msg'', LogStr ''handling /alert webhook request'')]),
              (LevelError,
               [(''msg'', LogStr ''error handling request''),
                (''statusCode'', LogInt 400),
                (''statusText'', LogStr ''Bad Request''),
                (''err'', LogErr err),
                (''receiver'', LogStr ''<unknown>''),
                (''groupLabels'', LogKV (GroupLabels data))])]"
    unfolding handler_decode_error[OF assms(1)] errorHandler_logger
    by (simp add: Log_def StatusText_def StatusBadRequest_def unknownReceiver_def)
  from same wr hs gw rt lg show ?thesis by blast
qed

theorem C6_witness:
  "alert_handler
     (sample_collaborators (batch ''team-a'' [firing_alert], Some (Err ''json: cannot unmarshal'')) (Inr ()) (False, None))
     ''{}'' fresh_w sample_state =
   alert_handler
     (sample_collaborators (batch ''ghost-team'' [], Some (Err ''json: cannot unmarshal'')) (Inl (Err ''x'')) (True, None))
     ''{}'' fresh_w sample_state \<and>
   http_status (fst (alert_handler
     (sample_collaborators (batch ''ghost-team'' [], Some (Err ''json: cannot unmarshal'')) (Inl (Err ''x'')) (True, None))
     ''{}'' fresh_w sample_state)) = 400 \<and>
   requestTotal (snd (alert_handler
     (sample_collaborators (batch ''ghost-team'' [], Some (Err ''json: cannot unmarshal'')) (Inl (Err ''x'')) (True, None))
     ''{}'' fresh_w sample_state)) (''<unknown>'', ''400'') = 1"
proof -
  let ?e = "Err ''json: cannot unmarshal''"
  let ?c = "sample_collaborators (batch ''ghost-team'' [], Some ?e) (Inl (Err ''x'')) (True, None)"
  let ?c' = "sample_collaborators (batch ''team-a'' [firing_alert], Some ?e) (Inr ()) (False, None)"
  have h: "json_Decode ?c ''{}'' = (batch ''ghost-team'' [], Some ?e)" by simp
  have h': "json_Decode ?c' ''{}'' = (batch ''team-a'' [firing_alert], Some ?e)" by simp
  have g: "GroupLabels (batch ''team-a'' [firing_alert]) = GroupLabels (batch ''ghost-team'' [])" by simp
  note t = C6_decode_failure_reads_group_labels_only[OF h h' g, of fresh_w sample_state]
  from t have a: "alert_handler ?c' ''{}'' fresh_w sample_state = alert_handler ?c ''{}'' fresh_w sample_state"
    by blast
  from t have b: "http_status (fst (alert_handler ?c ''{}'' fresh_w sample_state)) = 400"
    by blast
  from t have "requestTotal (snd (alert_handler ?c ''{}'' fresh_w sample_state)) =
      (requestTotal sample_state)((''<unknown>'', ''400'') := requestTotal sample_state (''<unknown>'', ''400'') + 1)"
    by blast
  then have d: "requestTotal (snd (alert_handler ?c ''{}'' fresh_w sample_state)) (''<unknown>'', ''400'') = 1"
    by (simp add: sample_state_def)
  from a b d show ?thesis by blast
qed

text \<open>
  The body below has a number where the receiver name is expected; the decoder fills the
  group labels and returns the type error. The key/value pairs handed to the logger hold
  the decoded group labels, which differ from those of the zero value.
\<close>

theorem C6_counterexample:
  "snd (json_Decode
      (sample_collaborators
         (zero_Data\<lparr>GroupLabels := [''alertname'' \<mapsto> ''HighLatency'']\<rparr>,
          Some (Err ''json: cannot unmarshal number into Go struct field Data.receiver of type string''))
         (Inr ()) (False, None))
      ''{\"groupLabels\":{\"alertname\":\"HighLatency\"},\"receiver\":5}'') \<noteq> None \<and>
   (''groupLabels'', LogKV [''alertname'' \<mapsto> ''HighLatency'']) \<in>
     set (snd (last (logger (snd (alert_handler
      (sample_collaborators
         (zero_Data\<lparr>GroupLabels := [''alertname'' \<mapsto> ''HighLatency'']\<rparr>,
          Some (Err ''json: cannot unmarshal number into Go struct field Data.receiver of type string''))
         (Inr ()) (False, None))
      ''{\"groupLabels\":{\"alertname\":\"HighLatency\"},\"receiver\":5}'' fresh_w sample_state))))) \<and>
   [''alertname'' \<mapsto> ''HighLatency''] \<noteq> GroupLabels zero_Data"
proof -
  let ?d = "zero_Data\<lparr>GroupLabels := [''alertname'' \<mapsto> ''HighLatency'']\<rparr>"
  let ?e = "Err ''json: cannot unmarshal number into Go struct field Data.receiver of type string''"
  let ?c = "sample_collaborators (?d, Some ?e) (Inr ()) (False, None)"
  have h: "json_Decode ?c body = (?d, Some ?e)" for body
    by simp
  show ?thesis
    unfolding handler_decode_error[OF h] errorHandler_logger
    by (simp add: zero_Data_def)
qed

text \<open>
  C7. Every request to POST /alert changes the counter vector by one increment of one
  counter: the one labelled with the stringified status of the response and with the
  best-available receiver name, which is "<unknown>" when decoding or routing failed and
  the matched receiver's name otherwise (with status "200" on success).
\<close>

theorem C7_counter_incremented_once:
  "requestTotal (snd (alert_handler c body fresh_w st)) =
     (requestTotal st)
       (((case json_Decode c body of
            (data, Some err) \<Rightarrow> unknownReceiver
          | (data, None) \<Rightarrow>
              (case ReceiverByName (config c) (Receiver data) of
                 None \<Rightarrow> unknownReceiver
               | Some conf \<Rightarrow> Name conf)),
         FormatInt (http_status (fst (alert_handler c body fresh_w st)))) :=
        requestTotal st
          ((case json_Decode c body of
              (data, Some err) \<Rightarrow> unknownReceiver
            | (data, None) \<Rightarrow>
                (case ReceiverByName (config c) (Receiver data) of
                   None \<Rightarrow> unknownReceiver
                 | Some conf \<Rightarrow> Name conf)),
           FormatInt (http_status (fst (alert_handler c body fresh_w st)))) + 1)"
  using alert_handler_cases[of c body st]
  by (elim disjE exE conjE)
     (simp_all add: Inc_def errorHandler_fresh)

theorem C7_witness:
  "requestTotal (snd (alert_handler
      (sample_collaborators (batch ''team-a'' [firing_alert], None) (Inr ()) (False, None))
      ''{}'' fresh_w sample_state)) (''team-a'', ''200'') = 1 \<and>
   requestTotal (snd (alert_handler
      (sample_collaborators (batch ''team-a'' [firing_alert], None) (Inr ()) (False, None))
      ''{}'' fresh_w sample_state)) (''team-a'', ''500'') = 0 \<and>
   requestTotal (snd (alert_handler
      (sample_collaborators (batch ''team-a'' [firing_alert], None) (Inr ()) (True, Some (Err ''timeout'')))
      ''{}'' fresh_w sample_state)) (''team-a'', ''503'') = 1"
proof -
  let ?ok = "sample_collaborators (batch ''team-a'' [firing_alert], None) (Inr ()) (False, None)"
  let ?ko = "sample_collaborators (batch ''team-a'' [firing_alert], None) (Inr ()) (True, Some (Err ''timeout''))"
  have a: "http_status (fst (alert_handler ?ok ''{}'' fresh_w sample_state)) = 200"
    by (simp add: handler_matched filter_resolved_data dispatch_def Let_def StatusOK_def)
  have b: "http_status (fst (alert_handler ?ko ''{}'' fresh_w sample_state)) = 503"
    by (simp add: handler_matched filter_resolved_data dispatch_def Let_def http_status_errorHandler
        retry_status_cases)
  have f: "FormatInt 200 = ''200''" "FormatInt 503 = ''503''"
    by (simp_all add: FormatInt_def formatBits.simps)
  note ok = C7_counter_incremented_once[of ?ok "''{}''" sample_state, unfolded a f]
  note ko = C7_counter_incremented_once[of ?ko "''{}''" sample_state, unfolded b f]
  from ok ko show ?thesis
    by (simp add: sample_state_def team_a_def)
qed

text \<open>
  C8. Alert filtering is idempotent: filtering a filtered sequence changes nothing, and
  for every batch whose alerts all have status "firing" the filter yields the same alert
  sequence, so that the filter step of the handler (lines 82 to 86) leaves the batch and
  the state unchanged (no warning is logged).
\<close>

theorem C8_filter_idempotent:
  "Firing (Firing as) = Firing as \<and>
   ((\<forall>a \<in> set (Alerts data). alert_status a = ''firing'') \<longrightarrow>
      Firing (Alerts data) = Alerts data \<and> filter_resolved conf data st = (data, st))"
proof -
  have "Firing (Alerts data) = Alerts data \<and> filter_resolved conf data st = (data, st)"
    if "\<forall>a \<in> set (Alerts data). alert_status a = ''firing''"
  proof -
    from that have "Firing (Alerts data) = Alerts data"
      unfolding Firing_def by (simp add: filter_id_conv)
    then show ?thesis by (simp add: filter_resolved_def)
  qed
  moreover have "Firing (Firing as) = Firing as"
    by (simp add: Firing_def)
  ultimately show ?thesis by blast
qed

theorem C8_witness:
  "Firing (Firing [firing_alert, resolved_alert]) = [firing_alert] \<and>
   filter_resolved team_a (batch ''team-a'' [firing_alert, firing_alert]) sample_state =
     (batch ''team-a'' [firing_alert, firing_alert], sample_state)"
proof -
  have h: "\<forall>a \<in> set (Alerts (batch ''team-a'' [firing_alert, firing_alert])). alert_status a = ''firing''"
    by (simp add: firing_alert_def)
  from C8_filter_idempotent[of "[firing_alert, resolved_alert]" "batch ''team-a'' [firing_alert, firing_alert]"
      team_a sample_state] h
  show ?thesis by simp
qed

text \<open>
  C9. For every request to GET /healthz the response has status 200 and its body is
  "OK" followed by a newline: the handler answers through \<^verbatim>\<open>http.Error\<close>, which prints
  the message with \<^verbatim>\<open>fmt.Fprintln\<close>.
\<close>

theorem C9_healthz:
  "http_status (healthz_handler fresh_w req) = 200 \<and>
   written (healthz_handler fresh_w req) = [Text (''OK'' @ [CHR 0x0A])]"
  by (simp add: healthz_handler_def http_Error_def WriteHeader_def Write_def Let_def
      http_status_def StatusOK_def)

theorem C9_witness:
  "http_status (healthz_handler fresh_w ''GET /healthz'') = 200 \<and>
   written (healthz_handler fresh_w ''GET /healthz'') = [Text [CHR ''O'', CHR ''K'', CHR 0x0A]]"
  using C9_healthz[of "''GET /healthz''"] by simp

text \<open>The body is not the two characters "OK" alone.\<close>

theorem C9_counterexample:
  "written (healthz_handler fresh_w ''GET /healthz'') \<noteq> [Text ''OK'']"
  by (simp add: healthz_handler_def http_Error_def WriteHeader_def Write_def Let_def)

text \<open>
  C10. Envelope consistency of the error path. On a fresh response writer
  \<^verbatim>\<open>errorHandler\<close> writes the status it is given and one envelope with \<open>Error\<close> true,
  that status and the error's text. Every envelope in a response of POST /alert is the
  only chunk of the body, has \<open>Error\<close> true, its \<open>Status\<close> is the status code written
  with \<^verbatim>\<open>WriteHeader\<close> and is not 200, and its \<open>Message\<close> is the text of the error the
  handler passed to \<^verbatim>\<open>errorHandler\<close>.
\<close>

theorem C10_envelope_consistency:
  "fst (errorHandler fresh_w status err receiver data st) =
     fresh_w\<lparr>wroteHeader := Some status,
             written := [JSON \<lparr>Error = True, Status = status, Message = ErrorText err\<rparr>]\<rparr> \<and>
   (\<forall>r. JSON r \<in> set (written (fst (alert_handler c body fresh_w st'))) \<longrightarrow>
      Error r = True \<and>
      wroteHeader (fst (alert_handler c body fresh_w st')) = Some (Status r) \<and>
      http_status (fst (alert_handler c body fresh_w st')) = Status r \<and>
      Status r \<noteq> 200 \<and>
      written (fst (alert_handler c body fresh_w st')) = [JSON r] \<and>
      (\<exists>e receiver' data' s.
         alert_handler c body fresh_w st' = errorHandler fresh_w (Status r) e receiver' data' s \<and>
         Message r = ErrorText e))"
proof -
  have "Error r = True \<and>
      wroteHeader (fst (alert_handler c body fresh_w st')) = Some (Status r) \<and>
      http_status (fst (alert_handler c body fresh_w st')) = Status r \<and>
      Status r \<noteq> 200 \<and>
      written (fst (alert_handler c body fresh_w st')) = [JSON r] \<and>
      (\<exists>e receiver' data' s.
         alert_handler c body fresh_w st' = errorHandler fresh_w (Status r) e receiver' data' s \<and>
         Message r = ErrorText e)"
    if r: "JSON r \<in> set (written (fst (alert_handler c body fresh_w st')))" for r
  proof -
    consider (ok) "fst (alert_handler c body fresh_w st') = fresh_w"
      | (failed) code e receiver' data' s where
          "code = StatusBadRequest \<or> code = StatusNotFound \<or>
           code = StatusInternalServerError \<or> code = StatusServiceUnavailable"
          "alert_handler c body fresh_w st' = errorHandler fresh_w code e receiver' data' s"
      using alert_handler_failure[of c body st'] by blast
    then show ?thesis
    proof cases
      case ok
      with r show ?thesis by simp
    next
      case failed
      have w: "fst (alert_handler c body fresh_w st') =
          fresh_w\<lparr>wroteHeader := Some code,
                  written := [JSON \<lparr>Error = True, Status = code, Message = ErrorText e\<rparr>]\<rparr>"
        unfolding failed(2) by (rule fst_errorHandler_fresh)
      from r w have eq: "r = \<lparr>Error = True, Status = code, Message = ErrorText e\<rparr>" by simp
      from failed(1) have "code \<noteq> 200" by (auto simp: status_defs)
      with eq w have "Error r = True \<and>
          wroteHeader (fst (alert_handler c body fresh_w st')) = Some (Status r) \<and>
          http_status (fst (alert_handler c body fresh_w st')) = Status r \<and>
          Status r \<noteq> 200 \<and>
          written (fst (alert_handler c body fresh_w st')) = [JSON r]"
        by (simp add: http_status_def)
      moreover from eq failed(2) have "alert_handler c body fresh_w st' =
          errorHandler fresh_w (Status r) e receiver' data' s \<and> Message r = ErrorText e"
        by simp
      ultimately show ?thesis by blast
    qed
  qed
  then show ?thesis by (simp add: fst_errorHandler_fresh)
qed

theorem C10_witness:
  "JSON \<lparr>Error = True, Status = 404, Message = ''receiver missing: ghost-team''\<rparr> \<in>
     set (written (fst (alert_handler
       (sample_collaborators (batch ''ghost-team'' [firing_alert], None) (Inr ()) (False, None))
       ''{}'' fresh_w sample_state))) \<and>
   wroteHeader (fst (alert_handler
       (sample_collaborators (batch ''ghost-team'' [firing_alert], None) (Inr ()) (False, None))
       ''{}'' fresh_w sample_state)) = Some 404"
proof -
  let ?c = "sample_collaborators (batch ''ghost-team'' [firing_alert], None) (Inr ()) (False, None)"
  let ?r = "\<lparr>Error = True, Status = 404, Message = ''receiver missing: ghost-team''\<rparr>"
  have m: "JSON ?r \<in> set (written (fst (alert_handler ?c ''{}'' fresh_w sample_state)))"
    by (simp add: handler_receiver_missing fst_errorHandler_fresh StatusNotFound_def)
  from C10_envelope_consistency[of _ _ _ _ _ ?c "''{}''" sample_state] m
  have "wroteHeader (fst (alert_handler ?c ''{}'' fresh_w sample_state)) = Some (Status ?r)"
    by blast
  with m show ?thesis by simp
qed

end
